theory Spec2Isabelle
  imports Main
begin

section \<open>Values exchanged with clients and with the storage service\<close>

text \<open>
  JSON values as Python sees them after \<open>request.get_json()\<close>: \<open>None\<close>, \<open>bool\<close>,
  \<open>int\<close>, \<open>str\<close>, \<open>list\<close> and \<open>dict\<close>. A dict is an association list with the
  lookups and updates of a Python dict. Numbers are Python integers (the \<open>total\<close> column and
  the ids are integers); numbers with a fractional part are not modelled.
\<close>

datatype json =
    JNull
  | JBool bool
  | JInt int
  | JString string
  | JArray "json list"
  | JObject "(string \<times> json) list"

type_synonym row = "(string \<times> json) list"

text \<open>\<open>d[k] = v\<close> on a dict: the key keeps its place if present, is appended otherwise.\<close>

fun dict_set :: "string \<Rightarrow> json \<Rightarrow> row \<Rightarrow> row" where
  "dict_set k v [] = [(k, v)]"
| "dict_set k v ((k', v') # d) = (if k = k' then (k, v) # d else (k', v') # dict_set k v d)"

text \<open>\<open>d[k]\<close> on a dict raises \<open>KeyError\<close>, whose \<open>str\<close> is the quoted key.\<close>

definition dict_getitem :: "row \<Rightarrow> string \<Rightarrow> string + json" where
  "dict_getitem d k = (case map_of d k of None \<Rightarrow> Inl ([CHR 0x27] @ k @ [CHR 0x27]) | Some v \<Rightarrow> Inr v)"

text \<open>Python's \<open>type(x).__name__\<close> for the values above.\<close>

fun type_name :: "json \<Rightarrow> string" where
  "type_name JNull = ''NoneType''"
| "type_name (JBool b) = ''bool''"
| "type_name (JInt n) = ''int''"
| "type_name (JString s) = ''str''"
| "type_name (JArray xs) = ''list''"
| "type_name (JObject d) = ''dict''"

fun starts_with :: "string \<Rightarrow> string \<Rightarrow> bool" where
  "starts_with [] s = True"
| "starts_with (c # cs) [] = False"
| "starts_with (c # cs) (x # xs) = (c = x \<and> starts_with cs xs)"

fun substring_of :: "string \<Rightarrow> string \<Rightarrow> bool" where
  "substring_of k [] = (k = [])"
| "substring_of k (x # xs) = (starts_with k (x # xs) \<or> substring_of k xs)"

text \<open>
  The operator \<open>field in data\<close> with \<open>field\<close> a string: key membership on a dict, element
  membership on a list, substring test on a string, and \<open>TypeError\<close> on every other value
  (\<open>Inl\<close> carries \<open>str(e)\<close>).
\<close>

fun py_in :: "string \<Rightarrow> json \<Rightarrow> string + bool" where
  "py_in k (JObject d) = Inr (k \<in> set (map fst d))"
| "py_in k (JArray xs) = Inr (JString k \<in> set xs)"
| "py_in k (JString s) = Inr (substring_of k s)"
| "py_in k v = Inl (''argument of type '' @ [CHR 0x27] @ type_name v @ [CHR 0x27] @ '' is not iterable'')"

text \<open>
  \<open>all(field in data for field in required_fields)\<close>: evaluated left to right, stops at the
  first false membership, and an exception of a membership test leaves the whole expression.
\<close>

fun all_fields_in :: "string list \<Rightarrow> json \<Rightarrow> string + bool" where
  "all_fields_in [] data = Inr True"
| "all_fields_in (f # fs) data =
     (case py_in f data of
        Inl e \<Rightarrow> Inl e
      | Inr False \<Rightarrow> Inr False
      | Inr True \<Rightarrow> all_fields_in fs data)"

text \<open>\<open>data[key] = value\<close> with a string key: only a dict accepts it.\<close>

fun py_setitem :: "json \<Rightarrow> string \<Rightarrow> json \<Rightarrow> string + row" where
  "py_setitem (JObject d) k v = Inr (dict_set k v d)"
| "py_setitem (JArray xs) k v = Inl ''list indices must be integers or slices, not str''"
| "py_setitem x k v =
     Inl ([CHR 0x27] @ type_name x @ [CHR 0x27] @ '' object does not support item assignment'')"

text \<open>\<open>current_total + 1\<close>: integer addition; a \<open>bool\<close> counts as 0 or 1.\<close>

fun py_add_one :: "json \<Rightarrow> string + json" where
  "py_add_one (JInt n) = Inr (JInt (n + 1))"
| "py_add_one (JBool b) = Inr (JInt ((if b then 1 else 0) + 1))"
| "py_add_one (JString s) = Inl (''can only concatenate str (not '' @ [CHR 0x22] @ ''int'' @ [CHR 0x22] @ '') to str'')"
| "py_add_one (JArray xs) = Inl (''can only concatenate list (not '' @ [CHR 0x22] @ ''int'' @ [CHR 0x22] @ '') to list'')"
| "py_add_one v =
     Inl (''unsupported operand type(s) for +: '' @ [CHR 0x27] @ type_name v @ [CHR 0x27] @ '' and '' @ [CHR 0x27] @ ''int'' @ [CHR 0x27])"

text \<open>
  \<open>str.split()\<close> without arguments: the maximal runs of characters that are not whitespace.
  Header values reach the application as Latin-1 text, where \<open>str.isspace\<close> holds of the
  twelve characters below.
\<close>

definition is_space :: "char \<Rightarrow> bool" where
  "is_space c = (c \<in> set [CHR 0x09, CHR 0x0A, CHR 0x0B, CHR 0x0C, CHR 0x0D, CHR 0x1C,
                           CHR 0x1D, CHR 0x1E, CHR 0x1F, CHR 0x20, CHR 0x85, CHR 0xA0])"

fun split_from :: "string \<Rightarrow> string \<Rightarrow> string list" where
  "split_from cur [] = (if cur = [] then [] else [cur])"
| "split_from cur (c # cs) =
     (if is_space c then (if cur = [] then split_from [] cs else cur # split_from [] cs)
      else split_from (cur @ [c]) cs)"

definition py_split :: "string \<Rightarrow> string list" where
  "py_split s = split_from [] s"

section \<open>The storage service\<close>

text \<open>
  Modelled from the spec: the storage service behind the \<open>supabase\<close> client is not part of the
  repository. It is taken as the spec describes it: three tables of records, created by insert,
  changed by partial update by id and removed by delete by id, with the numeric id assigned by
  the service; a query with \<open>eq(c, v)\<close> concerns the records whose column \<open>c\<close> holds
  \<open>v\<close>; every call either returns its rows or raises an error. The field \<open>pending\<close>
  is the outcome of the coming calls, in order: \<open>Some msg\<close> makes the next call raise with
  that message, \<open>None\<close> (or an exhausted list) lets it return.
\<close>

datatype table = Projetos | Certificados | Visitas

record db =
  rows_of :: "table \<Rightarrow> row list"
  serial :: "table \<Rightarrow> int"
  pending :: "string option list"

datatype cond = Everything | Eq string json

fun matches :: "cond \<Rightarrow> row \<Rightarrow> bool" where
  "matches Everything r = True"
| "matches (Eq c v) r = (map_of r c = Some v)"

definition execute :: "db \<Rightarrow> (db \<Rightarrow> db \<times> row list) \<Rightarrow> db \<times> (string + row list)" where
  "execute d q =
     (case pending d of
        [] \<Rightarrow> (case q d of (d', rs) \<Rightarrow> (d', Inr rs))
      | None # fs \<Rightarrow> (case q (d\<lparr>pending := fs\<rparr>) of (d', rs) \<Rightarrow> (d', Inr rs))
      | Some e # fs \<Rightarrow> (d\<lparr>pending := fs\<rparr>, Inl e))"

text \<open>\<open>table(t).select(cols).eq(c, v).execute()\<close>; \<open>cols = None\<close> stands for \<open>"*"\<close>.\<close>

definition project :: "string list option \<Rightarrow> row \<Rightarrow> row" where
  "project cols r = (case cols of None \<Rightarrow> r | Some cs \<Rightarrow> filter (\<lambda>(k, v). k \<in> set cs) r)"

definition db_select :: "table \<Rightarrow> string list option \<Rightarrow> cond \<Rightarrow> db \<Rightarrow> db \<times> (string + row list)" where
  "db_select t cols flt d =
     execute d (\<lambda>d. (d, map (project cols) (filter (matches flt) (rows_of d t))))"

text \<open>\<open>table(t).insert(r).execute()\<close>: the service gives the record its id.\<close>

definition with_id :: "int \<Rightarrow> row \<Rightarrow> row" where
  "with_id i r = (if ''id'' \<in> set (map fst r) then r else dict_set ''id'' (JInt i) r)"

definition db_insert :: "table \<Rightarrow> row \<Rightarrow> db \<Rightarrow> db \<times> (string + row list)" where
  "db_insert t r d =
     execute d (\<lambda>d. let r' = with_id (serial d t) r in
       (d\<lparr>rows_of := (rows_of d)(t := rows_of d t @ [r']),
          serial := (serial d)(t := serial d t + 1)\<rparr>, [r']))"

text \<open>\<open>table(t).update(u).eq(c, v).execute()\<close>: the columns of \<open>u\<close> overwrite those of
  every matching record; the changed records are returned.\<close>

definition merge :: "row \<Rightarrow> row \<Rightarrow> row" where
  "merge u r = fold (\<lambda>(k, v). dict_set k v) u r"

definition db_update :: "table \<Rightarrow> row \<Rightarrow> cond \<Rightarrow> db \<Rightarrow> db \<times> (string + row list)" where
  "db_update t u flt d =
     execute d (\<lambda>d.
       (d\<lparr>rows_of := (rows_of d)(t := map (\<lambda>r. if matches flt r then merge u r else r) (rows_of d t))\<rparr>,
        map (merge u) (filter (matches flt) (rows_of d t))))"

text \<open>\<open>table(t).delete().eq(c, v).execute()\<close>.\<close>

definition db_delete :: "table \<Rightarrow> cond \<Rightarrow> db \<Rightarrow> db \<times> (string + row list)" where
  "db_delete t flt d =
     execute d (\<lambda>d.
       (d\<lparr>rows_of := (rows_of d)(t := filter (\<lambda>r. \<not> matches flt r) (rows_of d t))\<rparr>,
        filter (matches flt) (rows_of d t)))"

section \<open>Requests, responses and the world a request runs in\<close>

datatype meth = GET | POST | PUT | DELETE

text \<open>The URL as the routing layer has matched it against the rules of \<open>app.py\<close>;
  \<open><int:...>\<close> converts a run of digits, so ids are natural numbers.\<close>

datatype url =
    U_health
  | U_projetos
  | U_projeto nat
  | U_certificados
  | U_certificado nat
  | U_visitas
  | U_index
  | U_admin
  | U_admin_logout
  | U_unmatched

text \<open>\<open>json_body\<close> is the outcome of \<open>request.get_json()\<close>: the parsed value
  (\<open>JNull\<close> for \<open>None\<close>), or \<open>Inl msg\<close> when the call raises because the body
  is absent, not declared as JSON, or not parseable.\<close>

record request =
  http_method :: meth
  url :: url
  headers :: "(string \<times> string) list"
  args :: "(string \<times> string) list"
  form :: "(string \<times> string) list"
  json_body :: "string + json"

datatype payload = Json json | Html string | Redirect string

record response =
  status :: nat
  body :: payload

record config =
  admin_password :: string

text \<open>
  What a handler reads and writes besides the request: the storage service, the session of
  the client, the UTC clock (\<open>datetime.utcnow().isoformat()\<close>), which template files exist
  (\<open>os.path.exists\<close>) and what \<open>render_template\<close> returns or raises for a template and
  its context.
\<close>

record world =
  store :: db
  session :: "(string \<times> bool) list"
  clock :: string
  template_exists :: "string \<Rightarrow> bool"
  render_template :: "string \<Rightarrow> (string \<times> string) list \<Rightarrow> string + string"

text \<open>\<open>session[k] = v\<close>.\<close>

fun dict_set_bool :: "string \<Rightarrow> bool \<Rightarrow> (string \<times> bool) list \<Rightarrow> (string \<times> bool) list" where
  "dict_set_bool k v [] = [(k, v)]"
| "dict_set_bool k v ((k', v') # d) =
     (if k = k' then (k, v) # d else (k', v') # dict_set_bool k v d)"

definition reply :: "nat \<Rightarrow> json \<Rightarrow> response" where
  "reply code j = \<lparr>status = code, body = Json j\<rparr>"

definition error_reply :: "nat \<Rightarrow> string \<Rightarrow> response" where
  "error_reply code msg = reply code (JObject [(''error'', JString msg)])"

definition redirect :: "string \<Rightarrow> response" where
  "redirect location = \<lparr>status = 302, body = Redirect location\<rparr>"

section \<open>app.py\<close>

subsection \<open>The authentication decorator\<close>

text \<open>
  \<open>if not auth_header\<close> holds of a missing header and of an empty one. Nothing in the
  \<open>try\<close> block can raise on a string, so its \<open>except\<close> branch has no counterpart.
\<close>

definition require_auth ::
  "config \<Rightarrow> (request \<Rightarrow> world \<Rightarrow> world \<times> response) \<Rightarrow> request \<Rightarrow> world \<Rightarrow> world \<times> response" where
  "require_auth cfg f rq w =
     (case map_of (headers rq) ''Authorization'' of
        None \<Rightarrow> (w, error_reply 401 ''Missing Authorization header'')
      | Some auth_header \<Rightarrow>
          if auth_header = [] then (w, error_reply 401 ''Missing Authorization header'')
          else
            (let parts = py_split auth_header in
               if length parts \<noteq> 2 \<or> parts ! 0 \<noteq> ''Bearer''
               then (w, error_reply 401 ''Invalid Authorization header'')
               else if parts ! 1 \<noteq> admin_password cfg
               then (w, error_reply 401 ''Unauthorized'')
               else f rq w))"

subsection \<open>Health check\<close>

definition health_check :: "request \<Rightarrow> world \<Rightarrow> world \<times> response" where
  "health_check rq w =
     (w, reply 200 (JObject [(''status'', JString ''ok''),
                             (''message'', JString ''Portfolio API is running'')]))"

subsection \<open>Projects and certificates\<close>

text \<open>
  The handlers of the two resources are the same code up to the table, the required fields
  and the messages, so each pair shares one body here.
\<close>

definition list_all_records :: "table \<Rightarrow> world \<Rightarrow> world \<times> response" where
  "list_all_records t w =
     (case db_select t None Everything (store w) of
        (d, Inl e) \<Rightarrow> (w\<lparr>store := d\<rparr>, error_reply 500 e)
      | (d, Inr data) \<Rightarrow> (w\<lparr>store := d\<rparr>, reply 200 (JArray (map JObject data))))"

definition get_projects :: "request \<Rightarrow> world \<Rightarrow> world \<times> response" where
  "get_projects rq w = list_all_records Projetos w"

definition create_record :: "table \<Rightarrow> string list \<Rightarrow> request \<Rightarrow> world \<Rightarrow> world \<times> response" where
  "create_record t required_fields rq w =
     (case json_body rq of
        Inl e \<Rightarrow> (w, error_reply 500 e)
      | Inr data \<Rightarrow>
          (case all_fields_in required_fields data of
             Inl e \<Rightarrow> (w, error_reply 500 e)
           | Inr False \<Rightarrow> (w, error_reply 400 ''Missing required fields'')
           | Inr True \<Rightarrow>
               (case py_setitem data ''created_at'' (JString (clock w)) of
                  Inl e \<Rightarrow> (w, error_reply 500 e)
                | Inr data' \<Rightarrow>
                    (case db_insert t data' (store w) of
                       (d, Inl e) \<Rightarrow> (w\<lparr>store := d\<rparr>, error_reply 500 e)
                     | (d, Inr rs) \<Rightarrow> (w\<lparr>store := d\<rparr>, reply 201 (JArray (map JObject rs)))))))"

definition project_fields :: "string list" where
  "project_fields = [''titulo'', ''descricao'', ''tecnologias'']"

definition certificate_fields :: "string list" where
  "certificate_fields = [''nome'', ''instituicao'', ''data_conclusao'']"

definition create_project :: "request \<Rightarrow> world \<Rightarrow> world \<times> response" where
  "create_project = create_record Projetos project_fields"

definition create_certificate :: "request \<Rightarrow> world \<Rightarrow> world \<times> response" where
  "create_certificate = create_record Certificados certificate_fields"

definition get_record :: "table \<Rightarrow> string \<Rightarrow> nat \<Rightarrow> world \<Rightarrow> world \<times> response" where
  "get_record t missing i w =
     (case db_select t None (Eq ''id'' (JInt (int i))) (store w) of
        (d, Inl e) \<Rightarrow> (w\<lparr>store := d\<rparr>, error_reply 500 e)
      | (d, Inr []) \<Rightarrow> (w\<lparr>store := d\<rparr>, error_reply 404 missing)
      | (d, Inr (r # rs)) \<Rightarrow> (w\<lparr>store := d\<rparr>, reply 200 (JObject r)))"

definition get_project :: "nat \<Rightarrow> request \<Rightarrow> world \<Rightarrow> world \<times> response" where
  "get_project i rq w = get_record Projetos ''Project not found'' i w"

definition get_certificate :: "nat \<Rightarrow> request \<Rightarrow> world \<Rightarrow> world \<times> response" where
  "get_certificate i rq w = get_record Certificados ''Certificate not found'' i w"

definition update_record :: "table \<Rightarrow> string \<Rightarrow> nat \<Rightarrow> request \<Rightarrow> world \<Rightarrow> world \<times> response" where
  "update_record t missing i rq w =
     (case json_body rq of
        Inl e \<Rightarrow> (w, error_reply 500 e)
      | Inr data \<Rightarrow>
          (case py_setitem data ''updated_at'' (JString (clock w)) of
             Inl e \<Rightarrow> (w, error_reply 500 e)
           | Inr data' \<Rightarrow>
               (case db_update t data' (Eq ''id'' (JInt (int i))) (store w) of
                  (d, Inl e) \<Rightarrow> (w\<lparr>store := d\<rparr>, error_reply 500 e)
                | (d, Inr []) \<Rightarrow> (w\<lparr>store := d\<rparr>, error_reply 404 missing)
                | (d, Inr (r # rs)) \<Rightarrow> (w\<lparr>store := d\<rparr>, reply 200 (JObject r)))))"

definition update_project :: "nat \<Rightarrow> request \<Rightarrow> world \<Rightarrow> world \<times> response" where
  "update_project i = update_record Projetos ''Project not found'' i"

definition update_certificate :: "nat \<Rightarrow> request \<Rightarrow> world \<Rightarrow> world \<times> response" where
  "update_certificate i = update_record Certificados ''Certificate not found'' i"

definition delete_record :: "table \<Rightarrow> string \<Rightarrow> nat \<Rightarrow> world \<Rightarrow> world \<times> response" where
  "delete_record t done_msg i w =
     (case db_delete t (Eq ''id'' (JInt (int i))) (store w) of
        (d, Inl e) \<Rightarrow> (w\<lparr>store := d\<rparr>, error_reply 500 e)
      | (d, Inr rs) \<Rightarrow> (w\<lparr>store := d\<rparr>, reply 200 (JObject [(''message'', JString done_msg)])))"

definition delete_project :: "nat \<Rightarrow> request \<Rightarrow> world \<Rightarrow> world \<times> response" where
  "delete_project i rq w = delete_record Projetos ''Project deleted successfully'' i w"

definition delete_certificate :: "nat \<Rightarrow> request \<Rightarrow> world \<Rightarrow> world \<times> response" where
  "delete_certificate i rq w = delete_record Certificados ''Certificate deleted successfully'' i w"

text \<open>\<open>if origem\<close> holds of a parameter that is present and not empty.\<close>

definition get_certificates :: "request \<Rightarrow> world \<Rightarrow> world \<times> response" where
  "get_certificates rq w =
     (let origem = map_of (args rq) ''origem'';
          flt = (case origem of
                   None \<Rightarrow> Everything
                 | Some v \<Rightarrow> if v = [] then Everything else Eq ''origem'' (JString v))
      in case db_select Certificados None flt (store w) of
           (d, Inl e) \<Rightarrow> (w\<lparr>store := d\<rparr>, error_reply 500 e)
         | (d, Inr data) \<Rightarrow> (w\<lparr>store := d\<rparr>, reply 200 (JArray (map JObject data))))"

subsection \<open>Visit counter\<close>

definition get_visits :: "request \<Rightarrow> world \<Rightarrow> world \<times> response" where
  "get_visits rq w =
     (case db_select Visitas (Some [''total'']) Everything (store w) of
        (d, Inl e) \<Rightarrow> (w\<lparr>store := d\<rparr>, error_reply 500 e)
      | (d, Inr []) \<Rightarrow> (w\<lparr>store := d\<rparr>, reply 200 (JObject [(''total'', JInt 0)]))
      | (d, Inr (r # rs)) \<Rightarrow>
          (case dict_getitem r ''total'' of
             Inl e \<Rightarrow> (w\<lparr>store := d\<rparr>, error_reply 500 e)
           | Inr v \<Rightarrow> (w\<lparr>store := d\<rparr>, reply 200 (JObject [(''total'', v)]))))"

definition increment_visits :: "request \<Rightarrow> world \<Rightarrow> world \<times> response" where
  "increment_visits rq w =
     (case db_select Visitas None Everything (store w) of
        (d, Inl e) \<Rightarrow> (w\<lparr>store := d\<rparr>, error_reply 500 e)
      | (d, Inr []) \<Rightarrow>
          (case db_insert Visitas [(''total'', JInt 1)] d of
             (d', Inl e) \<Rightarrow> (w\<lparr>store := d'\<rparr>, error_reply 500 e)
           | (d', Inr rs) \<Rightarrow> (w\<lparr>store := d'\<rparr>, reply 201 (JObject [(''total'', JInt 1)])))
      | (d, Inr (r # rs)) \<Rightarrow>
          (case dict_getitem r ''total'' of
             Inl e \<Rightarrow> (w\<lparr>store := d\<rparr>, error_reply 500 e)
           | Inr current_total \<Rightarrow>
               (case py_add_one current_total of
                  Inl e \<Rightarrow> (w\<lparr>store := d\<rparr>, error_reply 500 e)
                | Inr new_total \<Rightarrow>
                    (case dict_getitem r ''id'' of
                       Inl e \<Rightarrow> (w\<lparr>store := d\<rparr>, error_reply 500 e)
                     | Inr i \<Rightarrow>
                         (case db_update Visitas [(''total'', new_total)] (Eq ''id'' i) d of
                            (d', Inl e) \<Rightarrow> (w\<lparr>store := d'\<rparr>, error_reply 500 e)
                          | (d', Inr us) \<Rightarrow>
                              (w\<lparr>store := d'\<rparr>, reply 200 (JObject [(''total'', new_total)])))))))"

subsection \<open>Error handlers\<close>

definition not_found :: "request \<Rightarrow> world \<Rightarrow> world \<times> response" where
  "not_found rq w = (w, error_reply 404 ''Endpoint not found'')"

definition internal_error :: "request \<Rightarrow> world \<Rightarrow> world \<times> response" where
  "internal_error rq w = (w, error_reply 500 ''Internal server error'')"

subsection \<open>Login page, dashboard and logout\<close>

text \<open>The two texts of \<open>index\<close> with a character outside ASCII, in UTF-8.\<close>

definition senha_invalida :: string where
  "senha_invalida = ''Senha inv'' @ [CHR 0xC3, CHR 0xA1] @ ''lida''"

definition api_description :: string where
  "api_description =
     ''Portfolio API '' @ [CHR 0xE2, CHR 0x80, CHR 0x94] @ '' use /health or /api/projetos''"

definition render_or :: "world \<Rightarrow> string \<Rightarrow> (string \<times> string) list \<Rightarrow> response \<Rightarrow> response" where
  "render_or w name ctx fallback =
     (if template_exists w name
      then (case render_template w name ctx of
              Inr page \<Rightarrow> \<lparr>status = 200, body = Html page\<rparr>
            | Inl e \<Rightarrow> fallback)
      else fallback)"

definition index :: "config \<Rightarrow> request \<Rightarrow> world \<Rightarrow> world \<times> response" where
  "index cfg rq w =
     (if http_method rq = POST then
        (case map_of (form rq) ''password'' of
           Some password \<Rightarrow>
             if password \<noteq> [] \<and> password = admin_password cfg
             then (w\<lparr>session := dict_set_bool ''logged_in'' True (session w)\<rparr>, redirect ''/admin'')
             else (w, render_or w ''login.html'' [(''error'', senha_invalida)]
                        (error_reply 401 senha_invalida))
         | None \<Rightarrow>
             (w, render_or w ''login.html'' [(''error'', senha_invalida)]
                   (error_reply 401 senha_invalida)))
      else
        (w, render_or w ''login.html'' []
              (reply 200 (JObject
                 [(''message'', JString api_description),
                  (''endpoints'', JArray [JString ''/health'', JString ''/api/projetos'',
                                          JString ''/api/certificados'', JString ''/api/visitas''])]))))"

definition admin_dashboard :: "request \<Rightarrow> world \<Rightarrow> world \<times> response" where
  "admin_dashboard rq w =
     (if map_of (session w) ''logged_in'' = Some True
      then (w, render_or w ''admin_dashboard.html'' []
                 (reply 200 (JObject [(''message'', JString ''Admin dashboard'')])))
      else (w, redirect ''/''))"

definition admin_logout :: "request \<Rightarrow> world \<Rightarrow> world \<times> response" where
  "admin_logout rq w =
     (w\<lparr>session := filter (\<lambda>(k, v). k \<noteq> ''logged_in'') (session w)\<rparr>, redirect ''/'')"

subsection \<open>Routing\<close>

text \<open>
  The routing table of \<open>app.py\<close>: each rule with its methods, the \<open>404\<close> handler for a
  URL that matches no rule, and the framework's own \<open>405\<close> page for a rule reached with a
  method it does not list.
\<close>

definition method_not_allowed :: "request \<Rightarrow> world \<Rightarrow> world \<times> response" where
  "method_not_allowed rq w = (w, \<lparr>status = 405, body = Html ''Method Not Allowed''\<rparr>)"

definition dispatch :: "config \<Rightarrow> request \<Rightarrow> world \<Rightarrow> world \<times> response" where
  "dispatch cfg rq w =
     (case url rq of
        U_health \<Rightarrow> (case http_method rq of GET \<Rightarrow> health_check rq w | _ \<Rightarrow> method_not_allowed rq w)
      | U_projetos \<Rightarrow>
          (case http_method rq of
             GET \<Rightarrow> get_projects rq w
           | POST \<Rightarrow> require_auth cfg create_project rq w
           | _ \<Rightarrow> method_not_allowed rq w)
      | U_projeto i \<Rightarrow>
          (case http_method rq of
             GET \<Rightarrow> get_project i rq w
           | PUT \<Rightarrow> require_auth cfg (update_project i) rq w
           | DELETE \<Rightarrow> require_auth cfg (delete_project i) rq w
           | _ \<Rightarrow> method_not_allowed rq w)
      | U_certificados \<Rightarrow>
          (case http_method rq of
             GET \<Rightarrow> get_certificates rq w
           | POST \<Rightarrow> require_auth cfg create_certificate rq w
           | _ \<Rightarrow> method_not_allowed rq w)
      | U_certificado i \<Rightarrow>
          (case http_method rq of
             GET \<Rightarrow> get_certificate i rq w
           | PUT \<Rightarrow> require_auth cfg (update_certificate i) rq w
           | DELETE \<Rightarrow> require_auth cfg (delete_certificate i) rq w
           | _ \<Rightarrow> method_not_allowed rq w)
      | U_visitas \<Rightarrow>
          (case http_method rq of
             GET \<Rightarrow> get_visits rq w
           | POST \<Rightarrow> increment_visits rq w
           | _ \<Rightarrow> method_not_allowed rq w)
      | U_index \<Rightarrow>
          (case http_method rq of
             GET \<Rightarrow> index cfg rq w
           | POST \<Rightarrow> index cfg rq w
           | _ \<Rightarrow> method_not_allowed rq w)
      | U_admin \<Rightarrow> (case http_method rq of GET \<Rightarrow> admin_dashboard rq w | _ \<Rightarrow> method_not_allowed rq w)
      | U_admin_logout \<Rightarrow>
          (case http_method rq of POST \<Rightarrow> admin_logout rq w | _ \<Rightarrow> method_not_allowed rq w)
      | U_unmatched \<Rightarrow> not_found rq w)"

section \<open>admin.py\<close>

text \<open>
  The login view of the admin application. It has no \<open>try\<close> around \<open>render_template\<close>:
  \<open>Inl\<close> is the exception leaving the view. \<open>render_template\<close> alone gives status 200.
\<close>

definition login :: "config \<Rightarrow> request \<Rightarrow> world \<Rightarrow> string + world \<times> response" where
  "login cfg rq w =
     (if http_method rq = POST then
        (if map_of (form rq) ''password'' = Some (admin_password cfg)
         then Inr (w\<lparr>session := dict_set_bool ''authenticated'' True (session w)\<rparr>, redirect ''/admin'')
         else (case render_template w ''login.html'' [(''error'', ''Invalid password'')] of
                 Inl e \<Rightarrow> Inl e
               | Inr page \<Rightarrow> Inr (w, \<lparr>status = 200, body = Html page\<rparr>)))
      else
        (case render_template w ''login.html'' [] of
           Inl e \<Rightarrow> Inl e
         | Inr page \<Rightarrow> Inr (w, \<lparr>status = 200, body = Html page\<rparr>)))"

section \<open>Notions used by the properties\<close>

text \<open>The next \<open>k\<close> calls to the storage service return rather than raise.\<close>

definition calls_return :: "nat \<Rightarrow> db \<Rightarrow> bool" where
  "calls_return k d = list_all (\<lambda>f. f = None) (take k (pending d))"

text \<open>The total that \<open>get_visits\<close> reports when it is an integer: the \<open>total\<close> of the first
  record of \<open>visitas\<close>, and 0 when the table is empty.\<close>

definition stored_total :: "db \<Rightarrow> int option" where
  "stored_total d =
     (case rows_of d Visitas of
        [] \<Rightarrow> Some 0
      | r # rs \<Rightarrow> (case map_of r ''total'' of Some (JInt n) \<Rightarrow> Some n | _ \<Rightarrow> None))"

text \<open>Every record of a table carries the id the service gave it.\<close>

definition ids_assigned :: "table \<Rightarrow> db \<Rightarrow> bool" where
  "ids_assigned t d = list_all (\<lambda>r. ''id'' \<in> set (map fst r)) (rows_of d t)"

text \<open>The request passes \<open>require_auth\<close>: its header is \<open>Bearer\<close> and the admin password.\<close>

definition authenticated :: "config \<Rightarrow> request \<Rightarrow> bool" where
  "authenticated cfg rq =
     (case map_of (headers rq) ''Authorization'' of
        None \<Rightarrow> False
      | Some h \<Rightarrow> py_split h = [''Bearer'', admin_password cfg])"


text \<open>Concrete inputs: the default password of \<open>app.py\<close>, an empty database, a world without
  template files, and a request with nothing in it.\<close>

definition default_config :: config where
  "default_config = \<lparr>admin_password = ''admin123''\<rparr>"

definition empty_db :: db where
  "empty_db = \<lparr>rows_of = (\<lambda>t. []), serial = (\<lambda>t. 1), pending = []\<rparr>"

definition bare_world :: world where
  "bare_world =
     \<lparr>store = empty_db, session = [], clock = ''2025-01-15T12:00:00'',
      template_exists = (\<lambda>name. False),
      render_template = (\<lambda>name ctx. Inl name)\<rparr>"

definition templated_world :: world where
  "templated_world =
     \<lparr>store = empty_db, session = [], clock = ''2025-01-15T12:00:00'',
      template_exists = (\<lambda>name. True),
      render_template = (\<lambda>name ctx. Inr (''<html>'' @ name @ ''</html>''))\<rparr>"

definition plain_request :: request where
  "plain_request =
     \<lparr>http_method = GET, url = U_health, headers = [], args = [], form = [],
      json_body = Inl ''415 Unsupported Media Type''\<rparr>"

definition admin_request :: request where
  "admin_request = plain_request\<lparr>headers := [(''Authorization'', ''Bearer admin123'')]\<rparr>"

section \<open>Auxiliary facts\<close>

lemma py_split_Nil: "py_split [] = []"
  by (simp add: py_split_def)

lemma two_tokens: "length xs = 2 \<Longrightarrow> \<exists>a b. xs = [a, b]"
  by (cases xs; simp; case_tac list; simp)

lemma all_fields_in_object:
  "all_fields_in fs (JObject d) = Inr (set fs \<subseteq> set (map fst d))"
  by (induction fs) (auto split: bool.splits)

lemma require_auth_passes:
  "authenticated cfg rq \<Longrightarrow> require_auth cfg f rq w = f rq w"
  by (auto simp: authenticated_def require_auth_def Let_def py_split_Nil split: option.splits)

lemma require_auth_rejects:
  "\<not> authenticated cfg rq \<Longrightarrow> \<exists>msg. require_auth cfg f rq w = (w, error_reply 401 msg)"
proof (cases "map_of (headers rq) ''Authorization''")
  case None
  then show ?thesis by (auto simp: require_auth_def)
next
  case (Some h)
  assume na: "\<not> authenticated cfg rq"
  show ?thesis
  proof (cases "length (py_split h) = 2")
    case True
    then obtain a b where "py_split h = [a, b]"
      using two_tokens by blast
    with na Some show ?thesis
      by (auto simp: authenticated_def require_auth_def Let_def)
  next
    case False
    with Some show ?thesis by (auto simp: require_auth_def Let_def)
  qed
qed

lemma all_fields_in_array:
  "all_fields_in fs (JArray xs) = Inr (\<forall>k\<in>set fs. JString k \<in> set xs)"
  by (induction fs) (auto split: bool.splits)

lemma all_fields_in_string:
  "all_fields_in fs (JString s) = Inr (\<forall>k\<in>set fs. substring_of k s)"
  by (induction fs) (auto split: bool.splits)

lemma create_record_invalid:
  "json_body rq = Inr data \<Longrightarrow> all_fields_in fs data = Inr False \<Longrightarrow>
   create_record t fs rq w = (w, error_reply 400 ''Missing required fields'')"
  by (simp add: create_record_def)

lemma create_record_setitem_raises:
  "json_body rq = Inr data \<Longrightarrow> all_fields_in fs data = Inr True \<Longrightarrow>
   py_setitem data ''created_at'' (JString (clock w)) = Inl e \<Longrightarrow>
   create_record t fs rq w = (w, error_reply 500 e)"
  by (simp add: create_record_def)

lemma create_record_object_lacking:
  "json_body rq = Inr (JObject d) \<Longrightarrow> \<not> set fs \<subseteq> set (map fst d) \<Longrightarrow>
   create_record t fs rq w = (w, error_reply 400 ''Missing required fields'')"
  using create_record_invalid [of rq "JObject d" fs t w]
  by (simp add: all_fields_in_object)

lemma create_record_get_json_raises:
  "json_body rq = Inl e \<Longrightarrow> create_record t fs rq w = (w, error_reply 500 e)"
  by (simp add: create_record_def)

lemma create_record_not_iterable:
  "json_body rq = Inr v \<Longrightarrow> v = JNull \<or> (\<exists>b. v = JBool b) \<or> (\<exists>n. v = JInt n) \<Longrightarrow> fs \<noteq> [] \<Longrightarrow>
   \<exists>msg. create_record t fs rq w = (w, error_reply 500 msg)"
  by (cases fs) (auto simp: create_record_def)

lemma create_record_array:
  "json_body rq = Inr (JArray xs) \<Longrightarrow>
   create_record t fs rq w =
     (w, if \<forall>k\<in>set fs. JString k \<in> set xs
         then error_reply 500 ''list indices must be integers or slices, not str''
         else error_reply 400 ''Missing required fields'')"
  using create_record_invalid [of rq "JArray xs" fs t w]
        create_record_setitem_raises [of rq "JArray xs" fs w _ t]
  by (simp add: all_fields_in_array)

lemma create_record_string:
  "json_body rq = Inr (JString s) \<Longrightarrow>
   create_record t fs rq w =
     (w, if \<forall>k\<in>set fs. substring_of k s
         then error_reply 500 ([CHR 0x27] @ ''str'' @ [CHR 0x27] @ '' object does not support item assignment'')
         else error_reply 400 ''Missing required fields'')"
  using create_record_invalid [of rq "JString s" fs t w]
        create_record_setitem_raises [of rq "JString s" fs w _ t]
  by (simp add: all_fields_in_string)

lemma dispatch_create:
  "authenticated cfg rq \<Longrightarrow> http_method rq = POST \<Longrightarrow>
   (url rq = U_projetos \<longrightarrow> dispatch cfg rq w = create_record Projetos project_fields rq w)
   \<and> (url rq = U_certificados \<longrightarrow> dispatch cfg rq w = create_record Certificados certificate_fields rq w)"
  by (simp add: dispatch_def require_auth_passes create_project_def create_certificate_def)

lemma pending_same: "pending d = fs \<Longrightarrow> d\<lparr>pending := fs\<rparr> = d"
  by (cases d) simp

lemma execute_returns:
  "calls_return (Suc k) d \<Longrightarrow>
   execute d q = (case q (d\<lparr>pending := tl (pending d)\<rparr>) of (d', rs) \<Rightarrow> (d', Inr rs))"
  by (cases "pending d") (auto simp: execute_def calls_return_def pending_same split: option.splits)

















lemma not_authenticated_without_header:
  "map_of (headers rq) ''Authorization'' = None \<Longrightarrow>
   require_auth cfg f rq w = (w, error_reply 401 ''Missing Authorization header'')"
  by (simp add: require_auth_def)

lemma status_increment_visits:
  "status (snd (increment_visits rq w)) \<in> {200, 201, 500}"
  by (simp add: increment_visits_def error_reply_def reply_def
        split: prod.splits sum.splits list.splits)

lemma db_delete_returns:
  "calls_return (Suc k) d \<Longrightarrow> \<exists>d' rs. db_delete t c d = (d', Inr rs)"
  by (simp add: db_delete_def execute_returns)

lemma delete_record_status:
  "status (snd (delete_record t m i w)) \<in> {200, 500}"
  by (simp add: delete_record_def error_reply_def reply_def split: prod.splits sum.splits)

lemma delete_record_returns:
  "calls_return (Suc k) (store w) \<Longrightarrow>
   snd (delete_record t m i w) = reply 200 (JObject [(''message'', JString m)])"
  using db_delete_returns [of k "store w" t "Eq ''id'' (JInt (int i))"]
  by (auto simp: delete_record_def)

lemma delete_record_any_rows:
  "snd (delete_record t m i (w\<lparr>store := (store w)\<lparr>rows_of := rows\<rparr>\<rparr>)) = snd (delete_record t m i w)"
  by (cases "pending (store w)")
     (auto simp: delete_record_def db_delete_def execute_def split: option.splits)

lemma db_select_returns:
  "calls_return (Suc k) d \<Longrightarrow>
   db_select t cols c d =
     (d\<lparr>pending := tl (pending d)\<rparr>, Inr (map (project cols) (filter (matches c) (rows_of d t))))"
  by (simp add: db_select_def execute_returns)

lemma matches_Eq: "matches (Eq c v) = (\<lambda>r. map_of r c = Some v)"
  by (rule ext) simp

lemma project_all: "map (project None) rs = rs"
  by (induction rs) (simp_all add: project_def)

lemma map_of_dict_set: "map_of (dict_set k v d) = (map_of d)(k \<mapsto> v)"
  by (induction d) auto

lemma keys_dict_set: "fst ` set (dict_set k v d) = insert k (fst ` set d)"
proof (induction d)
  case Nil
  show ?case by simp
next
  case (Cons p d)
  obtain k' v' where p: "p = (k', v')" by (cases p)
  show ?case
  proof (cases "k = k'")
    case True
    then show ?thesis by (simp add: p)
  next
    case False
    then show ?thesis using Cons by (simp add: p insert_commute)
  qed
qed

lemma map_of_project:
  "map_of (project (Some cs) r) k = (if k \<in> set cs then map_of r k else None)"
  by (induction r) (auto simp: project_def)

lemma calls_return_later:
  "calls_return (Suc k) d \<Longrightarrow> pending d' = tl (pending d) \<Longrightarrow> calls_return k d'"
  by (cases "pending d") (auto simp: calls_return_def)

lemma db_insert_returns:
  "calls_return (Suc k) d \<Longrightarrow>
   db_insert t r d =
     (d\<lparr>pending := tl (pending d),
        rows_of := (rows_of d)(t := rows_of d t @ [with_id (serial d t) r]),
        serial := (serial d)(t := serial d t + 1)\<rparr>,
      Inr [with_id (serial d t) r])"
  by (simp add: db_insert_def execute_returns Let_def)

lemma db_update_returns:
  "calls_return (Suc k) d \<Longrightarrow>
   db_update t u c d =
     (d\<lparr>pending := tl (pending d),
        rows_of := (rows_of d)(t := map (\<lambda>r. if matches c r then merge u r else r) (rows_of d t))\<rparr>,
      Inr (map (merge u) (filter (matches c) (rows_of d t))))"
  by (simp add: db_update_def execute_returns)

lemma project_None: "project None r = r"
  by (simp add: project_def)

lemma merge_single: "merge [(k, v)] r = dict_set k v r"
  by (simp add: merge_def)

lemma increment_visits_first:
  assumes "rows_of (store w) Visitas = []" and "calls_return (Suc (Suc k)) (store w)"
  shows "increment_visits rq w =
     (w\<lparr>store := (store w)\<lparr>pending := tl (tl (pending (store w))),
           rows_of := (rows_of (store w))(Visitas := [[(''total'', JInt 1), (''id'', JInt (serial (store w) Visitas))]]),
           serial := (serial (store w))(Visitas := serial (store w) Visitas + 1)\<rparr>\<rparr>,
      reply 201 (JObject [(''total'', JInt 1)]))"
proof -
  let ?d = "(store w)\<lparr>pending := tl (pending (store w))\<rparr>"
  have s: "db_select Visitas None Everything (store w) = (?d, Inr [])"
    using assms by (simp add: db_select_returns)
  have "calls_return (Suc k) ?d"
    using assms(2) by (rule calls_return_later) simp
  from db_insert_returns [OF this, of Visitas "[(''total'', JInt 1)]"] assms(1)
  show ?thesis
    by (simp add: increment_visits_def s with_id_def)
qed

lemma increment_visits_next:
  assumes "rows_of (store w) Visitas = r # rs"
    and "map_of r ''total'' = Some (JInt n)" and "map_of r ''id'' = Some i"
    and "calls_return (Suc (Suc k)) (store w)"
  shows "increment_visits rq w =
     (w\<lparr>store := (store w)\<lparr>pending := tl (tl (pending (store w))),
           rows_of := (rows_of (store w))(Visitas :=
              map (\<lambda>x. if map_of x ''id'' = Some i then dict_set ''total'' (JInt (n + 1)) x else x) (r # rs))\<rparr>\<rparr>,
      reply 200 (JObject [(''total'', JInt (n + 1))]))"
proof -
  let ?d = "(store w)\<lparr>pending := tl (pending (store w))\<rparr>"
  have s: "db_select Visitas None Everything (store w) = (?d, Inr (r # rs))"
    using assms by (simp add: db_select_returns project_None project_all)
  have "calls_return (Suc k) ?d"
    using assms(4) by (rule calls_return_later) simp
  from db_update_returns [OF this, of Visitas "[(''total'', JInt (n + 1))]" "Eq ''id'' i", unfolded merge_single]
    assms(1,2,3)
  show ?thesis
    by (simp add: increment_visits_def s dict_getitem_def)
qed

lemma get_visits_reports_stored_total:
  assumes "stored_total (store w) = Some n" and "calls_return (Suc k) (store w)"
  shows "snd (get_visits rq w) = reply 200 (JObject [(''total'', JInt n)])"
proof (cases "rows_of (store w) Visitas")
  case Nil
  with assms show ?thesis
    by (simp add: get_visits_def db_select_returns stored_total_def)
next
  case (Cons r rs)
  with assms have "map_of r ''total'' = Some (JInt n)"
    by (auto simp: stored_total_def split: option.splits json.splits)
  with Cons assms(2) show ?thesis
    by (simp add: get_visits_def db_select_returns dict_getitem_def map_of_project)
qed

lemma calls_return_after_two:
  "calls_return (Suc (Suc k)) d \<Longrightarrow> pending d' = tl (tl (pending d)) \<Longrightarrow> calls_return k d'"
  by (cases "pending d"; cases "tl (pending d)") (auto simp: calls_return_def)

lemma has_key: "k \<in> fst ` set r \<Longrightarrow> \<exists>v. map_of r k = Some v"
  by (cases "map_of r k") (auto simp: map_of_eq_None_iff)

lemma increment_visits_step:
  assumes "stored_total (store w) = Some n" and "ids_assigned Visitas (store w)"
    and "calls_return (Suc (Suc k)) (store w)"
  shows "stored_total (store (fst (increment_visits rq w))) = Some (n + 1)
       \<and> ids_assigned Visitas (store (fst (increment_visits rq w)))
       \<and> calls_return k (store (fst (increment_visits rq w)))"
proof (cases "rows_of (store w) Visitas")
  case Nil
  with assms(1) have n: "n = 0" by (simp add: stored_total_def)
  note step = increment_visits_first [OF Nil assms(3), of rq]
  have rows: "rows_of (store (fst (increment_visits rq w))) Visitas
      = [[(''total'', JInt 1), (''id'', JInt (serial (store w) Visitas))]]"
    by (simp add: step)
  have pend: "pending (store (fst (increment_visits rq w))) = tl (tl (pending (store w)))"
    by (simp add: step)
  have "ids_assigned Visitas (store (fst (increment_visits rq w)))"
    by (simp add: rows ids_assigned_def)
  moreover have "calls_return k (store (fst (increment_visits rq w)))"
    using assms(3) pend by (rule calls_return_after_two)
  moreover have "stored_total (store (fst (increment_visits rq w))) = Some (n + 1)"
    by (simp add: rows stored_total_def n)
  ultimately show ?thesis by blast
next
  case (Cons r rs)
  with assms(1) have t: "map_of r ''total'' = Some (JInt n)"
    by (auto simp: stored_total_def split: option.splits json.splits)
  from Cons assms(2) have "''id'' \<in> fst ` set r"
    by (simp add: ids_assigned_def)
  then have "\<exists>v. map_of r ''id'' = Some v"
    by (rule has_key)
  then obtain i where i: "map_of r ''id'' = Some i" ..
  note step = increment_visits_next [OF Cons t i assms(3), of rq]
  have rows: "rows_of (store (fst (increment_visits rq w))) Visitas
      = map (\<lambda>x. if map_of x ''id'' = Some i then dict_set ''total'' (JInt (n + 1)) x else x) (r # rs)"
    by (simp add: step)
  have pend: "pending (store (fst (increment_visits rq w))) = tl (tl (pending (store w)))"
    by (simp add: step)
  have "\<forall>x\<in>set (r # rs). ''id'' \<in> fst ` set x"
    using Cons assms(2) by (simp add: ids_assigned_def list_all_iff)
  then have "ids_assigned Visitas (store (fst (increment_visits rq w)))"
    unfolding ids_assigned_def rows list_all_iff
    by (auto simp: keys_dict_set)
  moreover have "calls_return k (store (fst (increment_visits rq w)))"
    using assms(3) pend by (rule calls_return_after_two)
  moreover have "stored_total (store (fst (increment_visits rq w))) = Some (n + 1)"
    by (simp add: rows stored_total_def i map_of_dict_set)
  ultimately show ?thesis by blast
qed

text \<open>The documented header, \<open>Bearer\<close>, one space and a secret without whitespace,
  splits into the two tokens the guard expects.\<close>

lemma split_from_token:
  "\<forall>c\<in>set s. \<not> is_space c \<Longrightarrow> split_from cur s = (if cur @ s = [] then [] else [cur @ s])"
  by (induction s arbitrary: cur) auto

lemma py_split_bearer:
  assumes "tok \<noteq> []" and "\<forall>c\<in>set tok. \<not> is_space c"
  shows "py_split (''Bearer '' @ tok) = [''Bearer'', tok]"
  using assms by (simp add: py_split_def is_space_def split_from_token)

section \<open>The access guard\<close>

text \<open>
  C1. An endpoint wrapped by \<open>require_auth\<close> answers 401 with a JSON error body, without
  running the handler, when the \<open>Authorization\<close> header is absent, or does not split (as
  \<open>str.split()\<close> splits, at runs of whitespace) into exactly two tokens of which the first
  is \<open>Bearer\<close>, or when the second token differs from the admin password. When the header
  splits into \<open>Bearer\<close> and the admin password, the result is that of the wrapped handler.
  The two conditions exclude each other and cover every request, so the guard's 401 occurs
  exactly in the first case.
\<close>

theorem require_auth_guard:
  "((map_of (headers rq) ''Authorization'' = None
      \<or> (\<exists>h. map_of (headers rq) ''Authorization'' = Some h
             \<and> (length (py_split h) \<noteq> 2 \<or> py_split h ! 0 \<noteq> ''Bearer''
                  \<or> py_split h ! 1 \<noteq> admin_password cfg)))
     \<longrightarrow> (\<exists>msg. require_auth cfg f rq w =
                  (w, \<lparr>status = 401, body = Json (JObject [(''error'', JString msg)])\<rparr>)))
   \<and> ((\<exists>h. map_of (headers rq) ''Authorization'' = Some h
             \<and> length (py_split h) = 2 \<and> py_split h ! 0 = ''Bearer''
             \<and> py_split h ! 1 = admin_password cfg)
     \<longrightarrow> require_auth cfg f rq w = f rq w)"
proof (intro conjI impI)
  assume "map_of (headers rq) ''Authorization'' = None
      \<or> (\<exists>h. map_of (headers rq) ''Authorization'' = Some h
             \<and> (length (py_split h) \<noteq> 2 \<or> py_split h ! 0 \<noteq> ''Bearer''
                  \<or> py_split h ! 1 \<noteq> admin_password cfg))"
  then have "\<not> authenticated cfg rq"
    by (auto simp: authenticated_def)
  from require_auth_rejects [OF this, of f w]
  show "\<exists>msg. require_auth cfg f rq w =
                  (w, \<lparr>status = 401, body = Json (JObject [(''error'', JString msg)])\<rparr>)"
    by (simp add: error_reply_def reply_def)
next
  assume "\<exists>h. map_of (headers rq) ''Authorization'' = Some h
             \<and> length (py_split h) = 2 \<and> py_split h ! 0 = ''Bearer''
             \<and> py_split h ! 1 = admin_password cfg"
  then obtain h where h: "map_of (headers rq) ''Authorization'' = Some h"
    "length (py_split h) = 2" "py_split h ! 0 = ''Bearer''" "py_split h ! 1 = admin_password cfg"
    by blast
  from h(2) obtain a b where "py_split h = [a, b]"
    using two_tokens by blast
  with h have "authenticated cfg rq" by (simp add: authenticated_def)
  then show "require_auth cfg f rq w = f rq w" by (rule require_auth_passes)
qed

theorem require_auth_guard_witness:
  "require_auth default_config get_projects admin_request bare_world
     = get_projects admin_request bare_world
   \<and> (\<exists>msg. require_auth default_config get_projects plain_request bare_world =
          (bare_world, \<lparr>status = 401, body = Json (JObject [(''error'', JString msg)])\<rparr>))"
  using require_auth_guard [of admin_request default_config get_projects bare_world]
        require_auth_guard [of plain_request default_config get_projects bare_world]
  by (simp add: admin_request_def plain_request_def default_config_def py_split_def is_space_def)

section \<open>Validation of create requests\<close>

text \<open>
  C3. An authenticated \<open>POST /api/projetos\<close> or \<open>POST /api/certificados\<close> whose JSON
  payload is an object that lacks at least one required field name of the resource as a key is
  answered with status 400, and the world is returned as it was: no call reaches the storage
  service, nothing is stored.
\<close>

theorem create_missing_field_rejected:
  assumes "authenticated cfg rq" and "http_method rq = POST"
    and "json_body rq = Inr (JObject d)"
  shows "(url rq = U_projetos \<and> (\<exists>k\<in>set project_fields. k \<notin> set (map fst d))
            \<longrightarrow> dispatch cfg rq w =
                  (w, \<lparr>status = 400,
                       body = Json (JObject [(''error'', JString ''Missing required fields'')])\<rparr>))
       \<and> (url rq = U_certificados \<and> (\<exists>k\<in>set certificate_fields. k \<notin> set (map fst d))
            \<longrightarrow> dispatch cfg rq w =
                  (w, \<lparr>status = 400,
                       body = Json (JObject [(''error'', JString ''Missing required fields'')])\<rparr>))"
proof -
  have "\<not> set fs \<subseteq> set (map fst d) \<Longrightarrow>
        create_record t fs rq w =
          (w, \<lparr>status = 400,
               body = Json (JObject [(''error'', JString ''Missing required fields'')])\<rparr>)" for t fs
    using create_record_object_lacking [OF assms(3), of fs t w]
    by (simp add: error_reply_def reply_def)
  moreover have "(\<exists>k\<in>set fs. k \<notin> set (map fst d)) \<Longrightarrow> \<not> set fs \<subseteq> set (map fst d)" for fs
    by blast
  ultimately show ?thesis
    using dispatch_create [OF assms(1,2), of w] by metis
qed

theorem create_missing_field_rejected_witness:
  "dispatch default_config
     (admin_request\<lparr>http_method := POST, url := U_projetos,
                    json_body := Inr (JObject [(''titulo'', JString ''Test Project'')])\<rparr>) bare_world
   = (bare_world, \<lparr>status = 400,
                   body = Json (JObject [(''error'', JString ''Missing required fields'')])\<rparr>)"
  using create_missing_field_rejected
    [of default_config
        "admin_request\<lparr>http_method := POST, url := U_projetos,
                    json_body := Inr (JObject [(''titulo'', JString ''Test Project'')])\<rparr>"
        "[(''titulo'', JString ''Test Project'')]" bare_world]
  by (simp add: authenticated_def admin_request_def plain_request_def default_config_def
        py_split_def is_space_def project_fields_def)

text \<open>
  C10, as stated, fails: a create request whose body is the JSON array \<open>[]\<close> is not a JSON
  object, yet the membership test on a list raises nothing and the answer is the 400 of the
  validation.
\<close>

theorem create_array_body_counterexample:
  "authenticated default_config
      (admin_request\<lparr>http_method := POST, url := U_projetos, json_body := Inr (JArray [])\<rparr>)
   \<and> status (snd (dispatch default_config
        (admin_request\<lparr>http_method := POST, url := U_projetos, json_body := Inr (JArray [])\<rparr>)
        bare_world)) = 400"
  by (simp add: authenticated_def admin_request_def plain_request_def default_config_def
        py_split_def is_space_def project_fields_def dispatch_def require_auth_def
        create_project_def create_record_def error_reply_def reply_def)

text \<open>
  C10, amended. For an authenticated create request: when \<open>get_json\<close> raises (absent or
  unparseable body), or the body is \<open>null\<close>, a boolean or a number, the membership test
  or the call before it raises, the answer is 500 and the world is unchanged. A JSON array or
  string is tested for elements or substrings instead: the answer is 400 when some required
  field name is not found, and 500 otherwise, when the assignment of \<open>created_at\<close> raises;
  the world is unchanged in both cases.
\<close>

theorem create_non_object_body:
  assumes "authenticated cfg rq" and "http_method rq = POST"
    and "(url rq = U_projetos \<and> fs = project_fields) \<or> (url rq = U_certificados \<and> fs = certificate_fields)"
  shows "(\<forall>e. json_body rq = Inl e \<longrightarrow> dispatch cfg rq w = (w, error_reply 500 e))
       \<and> (json_body rq = Inr JNull \<or> (\<exists>b. json_body rq = Inr (JBool b)) \<or> (\<exists>n. json_body rq = Inr (JInt n))
            \<longrightarrow> (\<exists>msg. dispatch cfg rq w = (w, error_reply 500 msg)))
       \<and> (\<forall>xs. json_body rq = Inr (JArray xs)
            \<longrightarrow> fst (dispatch cfg rq w) = w
                \<and> status (snd (dispatch cfg rq w)) = (if \<forall>k\<in>set fs. JString k \<in> set xs then 500 else 400))
       \<and> (\<forall>s. json_body rq = Inr (JString s)
            \<longrightarrow> fst (dispatch cfg rq w) = w
                \<and> status (snd (dispatch cfg rq w)) = (if \<forall>k\<in>set fs. substring_of k s then 500 else 400))"
proof -
  from assms(3) obtain t where d: "dispatch cfg rq w = create_record t fs rq w" and ne: "fs \<noteq> []"
    using dispatch_create [OF assms(1,2), of w]
    by (auto simp: project_fields_def certificate_fields_def)
  have a: "\<forall>e. json_body rq = Inl e \<longrightarrow> dispatch cfg rq w = (w, error_reply 500 e)"
    by (simp add: d create_record_get_json_raises)
  have b: "json_body rq = Inr JNull \<or> (\<exists>b. json_body rq = Inr (JBool b)) \<or> (\<exists>n. json_body rq = Inr (JInt n))
            \<longrightarrow> (\<exists>msg. dispatch cfg rq w = (w, error_reply 500 msg))"
    unfolding d using create_record_not_iterable [OF _ _ ne, of rq _ t w] by blast
  have c: "\<forall>xs. json_body rq = Inr (JArray xs)
            \<longrightarrow> fst (dispatch cfg rq w) = w
                \<and> status (snd (dispatch cfg rq w)) = (if \<forall>k\<in>set fs. JString k \<in> set xs then 500 else 400)"
    by (simp add: d create_record_array error_reply_def reply_def)
  have e: "\<forall>s. json_body rq = Inr (JString s)
            \<longrightarrow> fst (dispatch cfg rq w) = w
                \<and> status (snd (dispatch cfg rq w)) = (if \<forall>k\<in>set fs. substring_of k s then 500 else 400)"
    by (simp add: d create_record_string error_reply_def reply_def)
  from a b c e show ?thesis by blast
qed

theorem create_non_object_body_witness:
  "(\<exists>msg. dispatch default_config
            (admin_request\<lparr>http_method := POST, url := U_projetos, json_body := Inr JNull\<rparr>) bare_world
          = (bare_world, error_reply 500 msg))
   \<and> status (snd (dispatch default_config
        (admin_request\<lparr>http_method := POST, url := U_projetos,
            json_body := Inr (JArray [JString ''titulo'', JString ''descricao'', JString ''tecnologias''])\<rparr>)
        bare_world)) = 500"
  using create_non_object_body
    [of default_config "admin_request\<lparr>http_method := POST, url := U_projetos, json_body := Inr JNull\<rparr>"
        project_fields bare_world]
   create_non_object_body
    [of default_config "admin_request\<lparr>http_method := POST, url := U_projetos,
            json_body := Inr (JArray [JString ''titulo'', JString ''descricao'', JString ''tecnologias''])\<rparr>"
        project_fields bare_world]
  by (auto simp: authenticated_def admin_request_def plain_request_def default_config_def
        py_split_def is_space_def project_fields_def error_reply_def reply_def)

section \<open>Error responses\<close>



section \<open>Which endpoints the guard protects\<close>

text \<open>
  C2, as stated, fails: \<open>POST /api/visitas\<close> writes to the store and is not wrapped by
  \<open>require_auth\<close>. Without an \<open>Authorization\<close> header and on an empty table it inserts
  the counter record and answers 201.
\<close>

theorem visitas_post_unguarded_counterexample:
  "map_of (headers (plain_request\<lparr>http_method := POST, url := U_visitas\<rparr>)) ''Authorization'' = None
   \<and> rows_of (store bare_world) Visitas = []
   \<and> rows_of (store (fst (dispatch default_config
            (plain_request\<lparr>http_method := POST, url := U_visitas\<rparr>) bare_world))) Visitas
       = [[(''total'', JInt 1), (''id'', JInt 1)]]
   \<and> status (snd (dispatch default_config
            (plain_request\<lparr>http_method := POST, url := U_visitas\<rparr>) bare_world)) = 201"
  by (simp add: plain_request_def bare_world_def empty_db_def dispatch_def increment_visits_def
        db_select_def db_insert_def execute_def with_id_def reply_def Let_def)

text \<open>
  C2, amended. A request without an \<open>Authorization\<close> header to an endpoint wrapped by
  \<open>require_auth\<close> (POST on the two collections, PUT and DELETE on their records) is answered
  with status 401 and leaves the world as it was. \<open>POST /api/visitas\<close> is not wrapped: it runs
  \<open>increment_visits\<close> whatever the headers and answers 200, 201 or 500.
\<close>

theorem mutating_endpoints_without_header:
  assumes "map_of (headers rq) ''Authorization'' = None"
  shows "((http_method rq = POST \<and> url rq \<in> {U_projetos, U_certificados})
          \<or> (http_method rq \<in> {PUT, DELETE} \<and> url rq \<in> {U_projeto i, U_certificado i})
            \<longrightarrow> dispatch cfg rq w = (w, error_reply 401 ''Missing Authorization header'')
                \<and> status (snd (dispatch cfg rq w)) = 401)
       \<and> (http_method rq = POST \<and> url rq = U_visitas
            \<longrightarrow> dispatch cfg rq w = increment_visits rq w
                \<and> status (snd (dispatch cfg rq w)) \<in> {200, 201, 500})"
  using status_increment_visits [of rq w]
  by (auto simp: dispatch_def not_authenticated_without_header [OF assms] error_reply_def reply_def)

theorem mutating_endpoints_without_header_witness:
  "dispatch default_config (plain_request\<lparr>http_method := DELETE, url := U_projeto 7\<rparr>) bare_world
     = (bare_world, error_reply 401 ''Missing Authorization header'')
   \<and> status (snd (dispatch default_config (plain_request\<lparr>http_method := POST, url := U_visitas\<rparr>) bare_world))
       \<in> {200, 201, 500}"
  using mutating_endpoints_without_header
          [of "plain_request\<lparr>http_method := DELETE, url := U_projeto 7\<rparr>" 7 default_config bare_world]
        mutating_endpoints_without_header
          [of "plain_request\<lparr>http_method := POST, url := U_visitas\<rparr>" 0 default_config bare_world]
  by (auto simp: plain_request_def)

section \<open>Deleting\<close>

text \<open>
  C9. An authenticated \<open>DELETE /api/projetos/{id}\<close> or \<open>DELETE /api/certificados/{id}\<close>
  never answers 404, and its response does not depend on the records of the table, so not on
  whether a record with that id exists: when the call to the storage service returns, the
  response is 200 with the confirmation message. (The only other response is the 500 of a call
  that raises.)
\<close>

theorem delete_ignores_absent_id:
  assumes "authenticated cfg rq" and "http_method rq = DELETE"
    and "(url rq = U_projeto i \<and> msg = ''Project deleted successfully'')
         \<or> (url rq = U_certificado i \<and> msg = ''Certificate deleted successfully'')"
  shows "status (snd (dispatch cfg rq w)) \<noteq> 404
       \<and> (calls_return 1 (store w)
            \<longrightarrow> snd (dispatch cfg rq w)
                  = \<lparr>status = 200, body = Json (JObject [(''message'', JString msg)])\<rparr>)
       \<and> (\<forall>rows. snd (dispatch cfg rq (w\<lparr>store := (store w)\<lparr>rows_of := rows\<rparr>\<rparr>))
                  = snd (dispatch cfg rq w))"
proof -
  from assms(3) obtain t where
    d: "\<And>w. dispatch cfg rq w = delete_record t msg i w"
    using assms(1,2)
    by (auto simp: dispatch_def require_auth_passes delete_project_def delete_certificate_def)
  have "status (snd (delete_record t msg i w)) \<noteq> 404"
    using delete_record_status [of t msg i w] by auto
  moreover have "calls_return 1 (store w) \<longrightarrow>
      snd (delete_record t msg i w) = \<lparr>status = 200, body = Json (JObject [(''message'', JString msg)])\<rparr>"
    using delete_record_returns [of 0 w t msg i] by (simp add: reply_def)
  ultimately show ?thesis
    by (simp add: d delete_record_any_rows)
qed

theorem delete_ignores_absent_id_witness:
  "rows_of (store bare_world) Projetos = []
   \<and> snd (dispatch default_config (admin_request\<lparr>http_method := DELETE, url := U_projeto 99999\<rparr>) bare_world)
       = \<lparr>status = 200, body = Json (JObject [(''message'', JString ''Project deleted successfully'')])\<rparr>"
  using delete_ignores_absent_id
    [of default_config "admin_request\<lparr>http_method := DELETE, url := U_projeto 99999\<rparr>" 99999
        "''Project deleted successfully''" bare_world]
  by (simp add: authenticated_def admin_request_def plain_request_def default_config_def
        py_split_def is_space_def bare_world_def empty_db_def calls_return_def)

section \<open>Filtering certificates\<close>

text \<open>
  C7. A \<open>GET /api/certificados\<close> with a non-empty \<open>origem\<close> parameter \<open>v\<close>, whose call
  to the storage service returns, is answered with status 200 and the array of exactly the
  stored certificates whose \<open>origem\<close> is \<open>v\<close>: every element of the array has that
  \<open>origem\<close>.
\<close>

theorem certificates_filtered_by_origem:
  assumes "http_method rq = GET" and "url rq = U_certificados"
    and "map_of (args rq) ''origem'' = Some v" and "v \<noteq> []"
    and "calls_return 1 (store w)"
  shows "\<exists>rs. snd (dispatch cfg rq w) = \<lparr>status = 200, body = Json (JArray (map JObject rs))\<rparr>
            \<and> rs = filter (\<lambda>r. map_of r ''origem'' = Some (JString v)) (rows_of (store w) Certificados)
            \<and> (\<forall>r\<in>set rs. map_of r ''origem'' = Some (JString v))"
  using assms db_select_returns [of 0 "store w" Certificados None "Eq ''origem'' (JString v)"]
  by (simp add: dispatch_def get_certificates_def project_all reply_def matches_Eq)

theorem certificates_filtered_by_origem_witness:
  "snd (dispatch default_config
      (plain_request\<lparr>url := U_certificados, args := [(''origem'', ''FIAP'')]\<rparr>)
      (bare_world\<lparr>store := empty_db\<lparr>rows_of := (\<lambda>t. [[(''id'', JInt 1), (''origem'', JString ''FIAP'')],
                                                      [(''id'', JInt 2), (''origem'', JString ''Alura'')]])\<rparr>\<rparr>))
   = \<lparr>status = 200,
      body = Json (JArray [JObject [(''id'', JInt 1), (''origem'', JString ''FIAP'')]])\<rparr>"
  using certificates_filtered_by_origem
    [of "plain_request\<lparr>url := U_certificados, args := [(''origem'', ''FIAP'')]\<rparr>" "''FIAP''"
        "bare_world\<lparr>store := empty_db\<lparr>rows_of := (\<lambda>t. [[(''id'', JInt 1), (''origem'', JString ''FIAP'')],
                                                      [(''id'', JInt 2), (''origem'', JString ''Alura'')]])\<rparr>\<rparr>"
        default_config]
  by (simp add: plain_request_def bare_world_def empty_db_def calls_return_def)

section \<open>The visit counter\<close>

text \<open>
  C4. A \<open>POST /api/visitas\<close> whose two calls to the storage service return: if a counter
  record exists (the first record of \<open>visitas\<close>, with its id) and its stored total is the
  integer \<open>n\<close>, the handler writes \<open>n + 1\<close> into the \<open>total\<close> of the record with that
  id and answers 200 with body \<open>{total: n + 1}\<close>; if no record exists, it inserts a record
  with total 1, to which the service gives an id, and answers 201 with body \<open>{total: 1}\<close>.
\<close>

theorem increment_visits_writes_back:
  assumes "http_method rq = POST" and "url rq = U_visitas"
    and "calls_return 2 (store w)"
  shows "(\<forall>r rs n i. rows_of (store w) Visitas = r # rs
              \<and> map_of r ''total'' = Some (JInt n) \<and> map_of r ''id'' = Some i
            \<longrightarrow> snd (dispatch cfg rq w)
                  = \<lparr>status = 200, body = Json (JObject [(''total'', JInt (n + 1))])\<rparr>
                \<and> rows_of (store (fst (dispatch cfg rq w))) Visitas
                  = map (\<lambda>x. if map_of x ''id'' = Some i
                               then dict_set ''total'' (JInt (n + 1)) x else x) (r # rs))
       \<and> (rows_of (store w) Visitas = []
            \<longrightarrow> snd (dispatch cfg rq w)
                  = \<lparr>status = 201, body = Json (JObject [(''total'', JInt 1)])\<rparr>
                \<and> rows_of (store (fst (dispatch cfg rq w))) Visitas
                  = [[(''total'', JInt 1), (''id'', JInt (serial (store w) Visitas))]])"
proof -
  have d: "dispatch cfg rq w = increment_visits rq w"
    using assms(1,2) by (simp add: dispatch_def)
  have c: "calls_return (Suc (Suc 0)) (store w)"
    using assms(3) by (simp add: numeral_2_eq_2)
  have "snd (increment_visits rq w)
          = \<lparr>status = 200, body = Json (JObject [(''total'', JInt (n + 1))])\<rparr>
        \<and> rows_of (store (fst (increment_visits rq w))) Visitas
          = map (\<lambda>x. if map_of x ''id'' = Some i
                       then dict_set ''total'' (JInt (n + 1)) x else x) (r # rs)"
    if "rows_of (store w) Visitas = r # rs" "map_of r ''total'' = Some (JInt n)"
       "map_of r ''id'' = Some i" for r rs n i
    by (simp add: increment_visits_next [OF that c] reply_def)
  moreover have "snd (increment_visits rq w)
          = \<lparr>status = 201, body = Json (JObject [(''total'', JInt 1)])\<rparr>
        \<and> rows_of (store (fst (increment_visits rq w))) Visitas
          = [[(''total'', JInt 1), (''id'', JInt (serial (store w) Visitas))]]"
    if "rows_of (store w) Visitas = []"
    by (simp add: increment_visits_first [OF that c] reply_def)
  ultimately show ?thesis
    unfolding d by blast
qed

theorem increment_visits_writes_back_witness:
  "snd (dispatch default_config (plain_request\<lparr>http_method := POST, url := U_visitas\<rparr>)
        (bare_world\<lparr>store := empty_db\<lparr>rows_of :=
            (\<lambda>t. [[(''id'', JInt 1), (''total'', JInt 41)]])\<rparr>\<rparr>))
     = \<lparr>status = 200, body = Json (JObject [(''total'', JInt 42)])\<rparr>
   \<and> rows_of (store (fst (dispatch default_config
          (plain_request\<lparr>http_method := POST, url := U_visitas\<rparr>)
          (bare_world\<lparr>store := empty_db\<lparr>rows_of :=
              (\<lambda>t. [[(''id'', JInt 1), (''total'', JInt 41)]])\<rparr>\<rparr>)))) Visitas
     = [[(''id'', JInt 1), (''total'', JInt 42)]]
   \<and> snd (dispatch default_config (plain_request\<lparr>http_method := POST, url := U_visitas\<rparr>) bare_world)
     = \<lparr>status = 201, body = Json (JObject [(''total'', JInt 1)])\<rparr>"
  using increment_visits_writes_back
    [of "plain_request\<lparr>http_method := POST, url := U_visitas\<rparr>"
        "bare_world\<lparr>store := empty_db\<lparr>rows_of :=
            (\<lambda>t. [[(''id'', JInt 1), (''total'', JInt 41)]])\<rparr>\<rparr>" default_config]
    increment_visits_writes_back
    [of "plain_request\<lparr>http_method := POST, url := U_visitas\<rparr>" bare_world default_config]
  by (simp add: plain_request_def bare_world_def empty_db_def calls_return_def)

text \<open>
  C6. From a state in which the stored visit total is \<open>n\<close> (the total that
  \<open>GET /api/visitas\<close> reports: that of the first record, or 0 without a record) and the
  records carry their ids, two \<open>POST /api/visitas\<close> requests in sequence, whose four calls
  to the storage service return, leave the stored total equal to \<open>n + 2\<close>.
\<close>

theorem two_increments_add_two:
  assumes "http_method rq1 = POST" and "url rq1 = U_visitas"
    and "http_method rq2 = POST" and "url rq2 = U_visitas"
    and "stored_total (store w) = Some n" and "ids_assigned Visitas (store w)"
    and "calls_return 4 (store w)"
  shows "stored_total (store (fst (dispatch cfg rq2 (fst (dispatch cfg rq1 w))))) = Some (n + 2)"
proof -
  have d: "dispatch cfg rq1 = increment_visits rq1" "dispatch cfg rq2 = increment_visits rq2"
    using assms(1-4) by (auto simp: dispatch_def fun_eq_iff)
  have "calls_return (Suc (Suc (Suc (Suc 0)))) (store w)"
    using assms(7) by (simp add: eval_nat_numeral)
  from increment_visits_step [OF assms(5,6) this, of rq1]
  have one: "stored_total (store (fst (increment_visits rq1 w))) = Some (n + 1)"
    "ids_assigned Visitas (store (fst (increment_visits rq1 w)))"
    "calls_return (Suc (Suc 0)) (store (fst (increment_visits rq1 w)))"
    by simp_all
  from increment_visits_step [OF one, of rq2]
  show ?thesis by (simp add: d)
qed

theorem two_increments_add_two_witness:
  "stored_total (store bare_world) = Some 0
   \<and> stored_total (store (fst (dispatch default_config
          (plain_request\<lparr>http_method := POST, url := U_visitas\<rparr>)
          (fst (dispatch default_config
             (plain_request\<lparr>http_method := POST, url := U_visitas\<rparr>) bare_world))))) = Some 2"
  using two_increments_add_two
    [of "plain_request\<lparr>http_method := POST, url := U_visitas\<rparr>"
        "plain_request\<lparr>http_method := POST, url := U_visitas\<rparr>" bare_world 0 default_config]
  by (simp add: plain_request_def bare_world_def empty_db_def calls_return_def
        stored_total_def ids_assigned_def)

section \<open>The form login\<close>

text \<open>
  C5, as stated, fails: with the login template in place, a wrong password posted to the root
  route is answered by the login page with status 200, a success status, and so is a wrong
  password posted to the login view of \<open>admin.py\<close>. Neither response is a rejection
  with an error status.
\<close>

theorem wrong_password_page_counterexample:
  "map_of (form (plain_request\<lparr>http_method := POST, url := U_index,
                                  form := [(''password'', ''wrong'')]\<rparr>)) ''password'' = Some ''wrong''
   \<and> ''wrong'' \<noteq> admin_password default_config
   \<and> snd (dispatch default_config
          (plain_request\<lparr>http_method := POST, url := U_index, form := [(''password'', ''wrong'')]\<rparr>)
          templated_world)
       = \<lparr>status = 200, body = Html ''<html>login.html</html>''\<rparr>
   \<and> login default_config
          (plain_request\<lparr>http_method := POST, form := [(''password'', ''wrong'')]\<rparr>)
          templated_world
       = Inr (templated_world, \<lparr>status = 200, body = Html ''<html>login.html</html>''\<rparr>)"
  by (simp add: plain_request_def default_config_def templated_world_def dispatch_def index_def
        render_or_def login_def)

text \<open>
  C5, amended. A password that is present in the posted form and differs from the admin
  password never marks the session as logged in and is never redirected to the dashboard: the
  world, the session in it, is returned as it was. The root route of \<open>app.py\<close> answers with
  the login page rendered with its message at status 200 when the template exists and renders,
  and with the JSON error and status 401 otherwise. The login view of \<open>admin.py\<close> answers
  with the page that \<open>render_template\<close> returns for \<open>login.html\<close> and the message
  \<open>Invalid password\<close>, at status 200, when that call returns; when it raises (the template
  is missing or does not render), the exception leaves the view and no response of the view
  exists.
\<close>

theorem wrong_password_not_logged_in:
  assumes "http_method rq = POST" and "map_of (form rq) ''password'' = Some p"
    and "p \<noteq> admin_password cfg"
  shows "fst (index cfg rq w) = w
       \<and> snd (index cfg rq w) =
           (if template_exists w ''login.html''
            then (case render_template w ''login.html'' [(''error'', senha_invalida)] of
                    Inr page \<Rightarrow> \<lparr>status = 200, body = Html page\<rparr>
                  | Inl e \<Rightarrow> \<lparr>status = 401, body = Json (JObject [(''error'', JString senha_invalida)])\<rparr>)
            else \<lparr>status = 401, body = Json (JObject [(''error'', JString senha_invalida)])\<rparr>)
       \<and> login cfg rq w =
           (case render_template w ''login.html'' [(''error'', ''Invalid password'')] of
              Inr page \<Rightarrow> Inr (w, \<lparr>status = 200, body = Html page\<rparr>)
            | Inl e \<Rightarrow> Inl e)"
  using assms
  by (simp add: index_def login_def render_or_def error_reply_def reply_def split: sum.splits)

theorem wrong_password_not_logged_in_witness:
  "index default_config
      (plain_request\<lparr>http_method := POST, url := U_index, form := [(''password'', ''wrong'')]\<rparr>)
      bare_world
     = (bare_world, \<lparr>status = 401, body = Json (JObject [(''error'', JString senha_invalida)])\<rparr>)
   \<and> session (fst (index default_config
      (plain_request\<lparr>http_method := POST, url := U_index, form := [(''password'', ''wrong'')]\<rparr>)
      templated_world)) = []
   \<and> login default_config
      (plain_request\<lparr>http_method := POST, url := U_index, form := [(''password'', ''wrong'')]\<rparr>)
      templated_world
     = Inr (templated_world, \<lparr>status = 200, body = Html ''<html>login.html</html>''\<rparr>)
   \<and> login default_config
      (plain_request\<lparr>http_method := POST, url := U_index, form := [(''password'', ''wrong'')]\<rparr>)
      bare_world
     = Inl ''login.html''"
  using wrong_password_not_logged_in
    [of "plain_request\<lparr>http_method := POST, url := U_index, form := [(''password'', ''wrong'')]\<rparr>"
        "''wrong''" default_config bare_world]
    wrong_password_not_logged_in
    [of "plain_request\<lparr>http_method := POST, url := U_index, form := [(''password'', ''wrong'')]\<rparr>"
        "''wrong''" default_config templated_world]
  by (simp add: plain_request_def default_config_def bare_world_def templated_world_def prod_eq_iff)

end
